theory Spec2Isabelle
  imports Main "HOL-Library.Word"
begin

unbundle bit_operations_syntax

section \<open>bthread/task_group.h: the per-worker scheduling core\<close>

text \<open>
  The header declares \<^verbatim>\<open>ExitException\<close>, \<^verbatim>\<open>AtomicInteger128\<close> and \<^verbatim>\<open>TaskGroup\<close> with its
  nested \<^verbatim>\<open>CPUTimeStat\<close> and \<^verbatim>\<open>AtomicCPUTimeStat\<close>. An \<^verbatim>\<open>int64_t\<close> is a \<open>64 word\<close>:
  \<open>sint\<close> reads the signed value and the bitwise operators act on the representation.
  C++ leaves signed overflow undefined; the model gives \<open>+\<close> and \<open>-\<close> the wrap-around
  of the two's-complement machines the library runs on, and every statement that depends
  on staying in range says so. Pointers (\<^verbatim>\<open>void*\<close>) and task identifiers
  (\<^verbatim>\<open>bthread_t\<close>, a \<^verbatim>\<open>uint64_t\<close>) are 64-bit words as well.

  Member functions keep their names. Where two classes share a name the model prefixes it
  (\<open>ai_load\<close> for \<^verbatim>\<open>AtomicInteger128::load\<close>, \<open>acts_load\<close> for
  \<^verbatim>\<open>AtomicCPUTimeStat::load\<close>), a field that shares its name with its accessor ends in
  \<open>_field\<close>, and \<^verbatim>\<open>ExitException::value\<close> is \<open>value_of\<close>.
\<close>

type_synonym int64_t = "64 word"
type_synonym bthread_t = "64 word"
type_synonym void_ptr = "64 word"

subsection \<open>ExitException\<close>

text \<open>
  \<^verbatim>\<open>class ExitException { explicit ExitException(void* value) : _value(value) {}
       void* value() const { return _value; }  private: void* _value; };\<close>
\<close>

record ExitException_obj =
  ee_value :: void_ptr

definition ExitException :: "void_ptr \<Rightarrow> ExitException_obj" where
  "ExitException v = \<lparr>ee_value = v\<rparr>"

definition what :: "ExitException_obj \<Rightarrow> string" where
  "what e = ''ExitException''"

definition value_of :: "ExitException_obj \<Rightarrow> void_ptr" where
  "value_of e = ee_value e"

subsection \<open>AtomicInteger128\<close>

text \<open>\<^verbatim>\<open>struct Value { int64_t v1; int64_t v2; };\<close>\<close>

record Value =
  v1 :: int64_t
  v2 :: int64_t

text \<open>
  The cell holds \<^verbatim>\<open>Value _value{}\<close> (zero-initialised) and a mutex that only the fallback
  path of \<^verbatim>\<open>load\<close>/\<^verbatim>\<open>store\<close> takes; the mutex carries no data and is left out.
\<close>

record AtomicInteger128 =
  ai_value :: Value

definition AtomicInteger128_default :: AtomicInteger128 where
  "AtomicInteger128_default = \<lparr>ai_value = \<lparr>v1 = 0, v2 = 0\<rparr>\<rparr>"

definition AtomicInteger128_of :: "Value \<Rightarrow> AtomicInteger128" where
  "AtomicInteger128_of val = \<lparr>ai_value = val\<rparr>"

definition ai_load_unsafe :: "AtomicInteger128 \<Rightarrow> Value" where
  "ai_load_unsafe c = ai_value c"

text \<open>
  Modelled from the spec: the bodies of \<^verbatim>\<open>AtomicInteger128::load\<close> and
  \<^verbatim>\<open>AtomicInteger128::store\<close> are missing (the header only declares them). The spec
  gives \<open>load() -> (i64, i64)\<close> and \<open>store((i64, i64))\<close> as an atomic read and an atomic
  replacement of the pair; seen from one thread that is a read and a write of
  \<^verbatim>\<open>_value\<close>.
\<close>

definition ai_load :: "AtomicInteger128 \<Rightarrow> Value" where
  "ai_load c = ai_value c"

definition ai_store :: "AtomicInteger128 \<Rightarrow> Value \<Rightarrow> AtomicInteger128" where
  "ai_store c val = c\<lparr>ai_value := val\<rparr>"

subsection \<open>TaskGroup::CPUTimeStat\<close>

definition LAST_SCHEDULING_TIME_MASK :: int64_t where
  "LAST_SCHEDULING_TIME_MASK = 0x7FFFFFFFFFFFFFFF"

definition TASK_TYPE_MASK :: int64_t where
  "TASK_TYPE_MASK = 0x8000000000000000"

record CPUTimeStat =
  last_run_ns_and_type_field :: int64_t
  cumulated_cputime_ns_field :: int64_t

text \<open>The two constructors and the conversion operator.\<close>

definition CPUTimeStat_default :: CPUTimeStat where
  "CPUTimeStat_default =
     \<lparr>last_run_ns_and_type_field = 0, cumulated_cputime_ns_field = 0\<rparr>"

definition CPUTimeStat_of_Value :: "Value \<Rightarrow> CPUTimeStat" where
  "CPUTimeStat_of_Value val =
     \<lparr>last_run_ns_and_type_field = v1 val, cumulated_cputime_ns_field = v2 val\<rparr>"

definition Value_of_CPUTimeStat :: "CPUTimeStat \<Rightarrow> Value" where
  "Value_of_CPUTimeStat s =
     \<lparr>v1 = last_run_ns_and_type_field s, v2 = cumulated_cputime_ns_field s\<rparr>"

text \<open>
  \<^verbatim>\<open>_last_run_ns_and_type = (last_run_ns & LAST_SCHEDULING_TIME_MASK) |
                            (static_cast<int64_t>(main_task) << 63);\<close>
\<close>

definition set_last_run_ns :: "CPUTimeStat \<Rightarrow> int64_t \<Rightarrow> bool \<Rightarrow> CPUTimeStat" where
  "set_last_run_ns s last_run main_task =
     s\<lparr>last_run_ns_and_type_field :=
         (last_run AND LAST_SCHEDULING_TIME_MASK) OR push_bit 63 (of_bool main_task)\<rparr>"

definition last_run_ns :: "CPUTimeStat \<Rightarrow> int64_t" where
  "last_run_ns s = last_run_ns_and_type_field s AND LAST_SCHEDULING_TIME_MASK"

definition last_run_ns_and_type :: "CPUTimeStat \<Rightarrow> int64_t" where
  "last_run_ns_and_type s = last_run_ns_and_type_field s"

text \<open>The \<^verbatim>\<open>int64_t\<close> result of the mask converts to \<^verbatim>\<open>bool\<close>: true iff nonzero.\<close>

definition is_main_task :: "CPUTimeStat \<Rightarrow> bool" where
  "is_main_task s \<longleftrightarrow> last_run_ns_and_type_field s AND TASK_TYPE_MASK \<noteq> 0"

text \<open>
  \<^verbatim>\<open>if (main_task) { return; }  _cumulated_cputime_ns += cputime_ns;\<close>
\<close>

definition add_cumulated_cputime_ns :: "CPUTimeStat \<Rightarrow> int64_t \<Rightarrow> bool \<Rightarrow> CPUTimeStat" where
  "add_cumulated_cputime_ns s cputime_ns main_task =
     (if main_task then s
      else s\<lparr>cumulated_cputime_ns_field := cumulated_cputime_ns_field s + cputime_ns\<rparr>)"

definition cumulated_cputime_ns :: "CPUTimeStat \<Rightarrow> int64_t" where
  "cumulated_cputime_ns s = cumulated_cputime_ns_field s"

subsection \<open>TaskGroup::AtomicCPUTimeStat\<close>

text \<open>
  \<^verbatim>\<open>CPUTimeStat load() const { return _cpu_time_stat.load(); }\<close> converts the loaded
  \<^verbatim>\<open>Value\<close> through the converting constructor; \<^verbatim>\<open>store\<close> converts the other way with
  the explicit conversion operator.
\<close>

record AtomicCPUTimeStat =
  acts_cell :: AtomicInteger128

definition acts_load :: "AtomicCPUTimeStat \<Rightarrow> CPUTimeStat" where
  "acts_load a = CPUTimeStat_of_Value (ai_load (acts_cell a))"

definition acts_load_unsafe :: "AtomicCPUTimeStat \<Rightarrow> CPUTimeStat" where
  "acts_load_unsafe a = CPUTimeStat_of_Value (ai_load_unsafe (acts_cell a))"

definition acts_store :: "AtomicCPUTimeStat \<Rightarrow> CPUTimeStat \<Rightarrow> AtomicCPUTimeStat" where
  "acts_store a cpu_time_stat =
     a\<lparr>acts_cell := ai_store (acts_cell a) (Value_of_CPUTimeStat cpu_time_stat)\<rparr>"

subsection \<open>The collaborators of TaskGroup\<close>

text \<open>
  \<^verbatim>\<open>TaskMeta\<close>, \<^verbatim>\<open>ParkingLot\<close>, \<^verbatim>\<open>RemoteTaskQueue\<close>, \<^verbatim>\<open>WorkStealingQueue\<close> and
  \<^verbatim>\<open>TaskControl\<close> are included by the header but defined in other files. Each is given
  here with the fields and operations that the spec lists for it.
\<close>

type_synonym size_t = "64 word"

text \<open>
  Modelled from the spec: \<^verbatim>\<open>bthread_exit\<close> and the way an entry function ends (both
  are defined outside the header). An entry function either returns a pointer or is
  unwound by the sentinel that \<^verbatim>\<open>bthread_exit(value)\<close> raises, the \<^verbatim>\<open>ExitException\<close>
  of the header; exceptions are values of the outcome type.
\<close>

datatype entry_outcome = Returns void_ptr | Raises ExitException_obj

definition bthread_exit :: "void_ptr \<Rightarrow> entry_outcome" where
  "bthread_exit v = Raises (ExitException v)"

text \<open>
  Modelled from the spec: \<^verbatim>\<open>TaskMeta\<close> (task_meta.h is missing). The fields are the ones
  the spec's data model names: the identifier, the entry \<open>fn\<close> and \<open>arg\<close>, the attributes,
  the advisory stop flag, the sticky interrupt flag, \<open>stat.cpu_usage_ns\<close>,
  \<open>cpuwide_start_ns\<close>, the generation that \<open>version_butex\<close> is keyed on, whether the
  ltask is parked on a blocking primitive, and the return value and the terminated mark
  that TaskRunner stores on exit.
\<close>

record TaskStatistics =
  cpu_usage_ns :: int64_t

record 'attr TaskMeta =
  tid :: bthread_t
  fn :: "void_ptr \<Rightarrow> entry_outcome"
  arg :: void_ptr
  attr :: 'attr
  stop :: bool
  interrupted :: bool
  parked :: bool
  stat :: TaskStatistics
  cpuwide_start_ns :: int64_t
  version_butex :: "32 word"
  return_value :: void_ptr
  terminated :: bool

text \<open>
  Modelled from the spec: \<^verbatim>\<open>ParkingLot\<close> (parking_lot.h is missing). The spec gives
  \<open>state() -> epoch\<close>; the header calls it \<^verbatim>\<open>get_state\<close>.
\<close>

type_synonym ParkingLot_State = "32 word"

record ParkingLot =
  pl_epoch :: ParkingLot_State

definition get_state :: "ParkingLot \<Rightarrow> ParkingLot_State" where
  "get_state p = pl_epoch p"

text \<open>
  Modelled from the spec: \<^verbatim>\<open>RemoteTaskQueue\<close> (remote_task_queue.h is missing), a FIFO of
  ids: \<open>push\<close> appends, \<open>pop\<close> by the owner takes the oldest id and reports failure on an
  empty queue. \<^verbatim>\<open>bool pop(bthread_t* tid)\<close> becomes an option: \<open>Some (t, q')\<close> is
  \<^verbatim>\<open>true\<close> with \<^verbatim>\<open>*tid = t\<close>.
\<close>

type_synonym RemoteTaskQueue = "bthread_t list"

definition remote_push :: "RemoteTaskQueue \<Rightarrow> bthread_t \<Rightarrow> RemoteTaskQueue" where
  "remote_push q t = q @ [t]"

fun remote_pop :: "RemoteTaskQueue \<Rightarrow> (bthread_t \<times> RemoteTaskQueue) option" where
  "remote_pop [] = None"
| "remote_pop (t # q) = Some (t, q)"

text \<open>
  Modelled from the spec: \<^verbatim>\<open>WorkStealingQueue\<close> (work_stealing_queue.h is missing), the
  bounded deque of ids whose capacity is fixed at group init. The list runs from the top
  (where stealers take) to the bottom (where the owner pushes and pops).
  \<open>push_bottom\<close> fails on a full queue; \<open>steal_top\<close> by a peer takes the id at the top.
\<close>

record WorkStealingQueue =
  wsq_items :: "bthread_t list"
  wsq_capacity :: nat

definition wsq_full :: "WorkStealingQueue \<Rightarrow> bool" where
  "wsq_full q \<longleftrightarrow> wsq_capacity q \<le> length (wsq_items q)"

definition push_bottom :: "WorkStealingQueue \<Rightarrow> bthread_t \<Rightarrow> WorkStealingQueue option" where
  "push_bottom q t =
     (if wsq_full q then None else Some (q\<lparr>wsq_items := wsq_items q @ [t]\<rparr>))"

definition pop_bottom :: "WorkStealingQueue \<Rightarrow> (bthread_t \<times> WorkStealingQueue) option" where
  "pop_bottom q =
     (if wsq_items q = [] then None
      else Some (last (wsq_items q), q\<lparr>wsq_items := butlast (wsq_items q)\<rparr>))"

definition steal_top :: "WorkStealingQueue \<Rightarrow> (bthread_t \<times> WorkStealingQueue) option" where
  "steal_top q =
     (case wsq_items q of [] \<Rightarrow> None
      | t # ts \<Rightarrow> Some (t, q\<lparr>wsq_items := ts\<rparr>))"

text \<open>What \<open>n\<close> successive \<open>steal_top\<close> calls of peers leave in the queue.\<close>

fun stolen_by_peers :: "nat \<Rightarrow> WorkStealingQueue \<Rightarrow> WorkStealingQueue" where
  "stolen_by_peers 0 q = q"
| "stolen_by_peers (Suc n) q =
     (case steal_top q of None \<Rightarrow> q | Some (t, q') \<Rightarrow> stolen_by_peers n q')"

text \<open>
  \<^verbatim>\<open>TaskControl::steal_task(bthread_t* tid, size_t* seed, size_t offset)\<close> is defined in
  another file and works on the queues of the peer groups. It is a parameter of the model:
  a function of the control's state, the seed and the offset that returns the stolen id
  (if any), the seed it leaves in \<^verbatim>\<open>*seed\<close>, and the control's new state.
\<close>

type_synonym 'c control_steal_task =
  "'c \<Rightarrow> size_t \<Rightarrow> size_t \<Rightarrow> bthread_t option \<times> size_t \<times> 'c"

subsection \<open>TaskGroup\<close>

text \<open>
  The fields that the modelled member functions read or write. \<^verbatim>\<open>_cur_meta\<close> and
  \<^verbatim>\<open>_pl\<close> are pointers that the functions dereference; the record holds the objects
  pointed to. \<^verbatim>\<open>_control\<close> points to the shared TaskControl, whose state is passed
  beside the group.
\<close>

record 'attr TaskGroup =
  cur_meta :: "'attr TaskMeta"
  cpu_time_stat :: AtomicCPUTimeStat
  last_cpu_clock_ns :: int64_t
  pl :: ParkingLot
  last_pl_state :: ParkingLot_State
  steal_seed :: size_t
  steal_offset :: size_t
  main_tid :: bthread_t
  rq :: WorkStealingQueue
  remote_rq :: RemoteTaskQueue

definition current_tid :: "'attr TaskGroup \<Rightarrow> bthread_t" where
  "current_tid g = tid (cur_meta g)"

definition is_current_main_task :: "'attr TaskGroup \<Rightarrow> bool" where
  "is_current_main_task g \<longleftrightarrow> current_tid g = main_tid g"

definition rq_size :: "'attr TaskGroup \<Rightarrow> nat" where
  "rq_size g = length (wsq_items (rq g))"

text \<open>
  \<^verbatim>\<open>int64_t current_task_cpu_clock_ns() {
      if (_last_cpu_clock_ns == 0) { return 0; }
      int64_t total_ns = _cur_meta->stat.cpu_usage_ns;
      total_ns += butil::cputhread_time_ns() - _last_cpu_clock_ns;
      return total_ns; }\<close>
  The reading of the thread's CPU clock, \<^verbatim>\<open>butil::cputhread_time_ns()\<close>, is the argument
  \<open>cputhread_time_ns\<close>.
\<close>

definition current_task_cpu_clock_ns :: "'attr TaskGroup \<Rightarrow> int64_t \<Rightarrow> int64_t" where
  "current_task_cpu_clock_ns g cputhread_time_ns =
     (if last_cpu_clock_ns g = 0 then 0
      else let total_ns = cpu_usage_ns (stat (cur_meta g))
           in total_ns + (cputhread_time_ns - last_cpu_clock_ns g))"

text \<open>
  \<^verbatim>\<open>bool steal_task(bthread_t* tid) {
      if (_remote_rq.pop(tid)) { return true; }
  #ifndef BTHREAD_DONT_SAVE_PARKING_STATE
      _last_pl_state = _pl->get_state();
  #endif
      return _control->steal_task(tid, &_steal_seed, _steal_offset); }\<close>
  The result is the id written to \<^verbatim>\<open>*tid\<close> when the call returns \<^verbatim>\<open>true\<close> and \<open>None\<close>
  when it returns \<^verbatim>\<open>false\<close>, with the group and the control as the call leaves them. The
  build macro is the flag \<open>dont_save_parking_state\<close>; it is undefined (\<open>False\<close>) in the
  default build.
\<close>

definition steal_task ::
  "bool \<Rightarrow> 'c control_steal_task \<Rightarrow> 'attr TaskGroup \<Rightarrow> 'c
     \<Rightarrow> bthread_t option \<times> 'attr TaskGroup \<times> 'c" where
  "steal_task dont_save_parking_state control_steal g c =
     (case remote_pop (remote_rq g) of
        Some (t, q') \<Rightarrow> (Some t, g\<lparr>remote_rq := q'\<rparr>, c)
      | None \<Rightarrow>
          (let g1 = (if dont_save_parking_state then g
                     else g\<lparr>last_pl_state := get_state (pl g)\<rparr>);
               (r, seed', c') = control_steal c (steal_seed g1) (steal_offset g1)
           in (r, g1\<lparr>steal_seed := seed'\<rparr>, c')))"

subsection \<open>Ltask identifiers and the meta pool\<close>

text \<open>
  Modelled from the spec: the id layout and \<^verbatim>\<open>TaskGroup::address_meta\<close> (declared in the
  header, defined elsewhere). An id is a 64-bit value composed of a slot index into the meta
  pool and a generation counter; the spec does not say which bits hold which, and the model
  puts the slot in the low half and the generation in the high half. The pool maps a slot to
  its descriptor, whose \<open>version_butex\<close> holds the slot's current generation.
  \<open>address_meta\<close> returns null (\<open>None\<close>) on a stale generation.
\<close>

definition get_slot :: "bthread_t \<Rightarrow> 32 word" where
  "get_slot t = ucast t"

definition get_version :: "bthread_t \<Rightarrow> 32 word" where
  "get_version t = ucast (drop_bit 32 t)"

type_synonym 'attr meta_pool = "32 word \<Rightarrow> 'attr TaskMeta option"

definition address_meta :: "'attr meta_pool \<Rightarrow> bthread_t \<Rightarrow> 'attr TaskMeta option" where
  "address_meta pool t =
     (case pool (get_slot t) of
        None \<Rightarrow> None
      | Some m \<Rightarrow> if version_butex m = get_version t then Some m else None)"

subsection \<open>join, interrupt, get_attr\<close>

text \<open>
  POSIX-style return codes: 0 is success. The spec names no code for its errors; the model
  uses \<^verbatim>\<open>EINVAL\<close>.
\<close>

definition EINVAL :: int where
  "EINVAL = 22"

text \<open>
  Modelled from the spec: \<^verbatim>\<open>TaskGroup::join\<close> (declared in the header, defined elsewhere).
  The spec: join resolves the meta; on a generation mismatch it returns success (the ltask
  is already terminated); joining self is an error; otherwise it waits on \<open>version_butex\<close>
  until the generation advances, then copies the return value.

  The wait is a loop that looks at the slot again after every suspension of the caller.
  \<open>others k\<close> is what the other ltasks do to the pool during the \<open>k\<close>-th suspension. A join
  that never wakes has the value \<open>None\<close>; otherwise the result is the return code and the
  content of \<^verbatim>\<open>*return_value\<close>, which holds \<open>ret\<close> before the call.
\<close>

partial_function (option) join_wait ::
  "(nat \<Rightarrow> 'attr meta_pool \<Rightarrow> 'attr meta_pool) \<Rightarrow> nat \<Rightarrow> 'attr meta_pool \<Rightarrow> bthread_t
     \<Rightarrow> void_ptr \<Rightarrow> (int \<times> void_ptr) option" where
  "join_wait others k pool t ret =
     (case pool (get_slot t) of
        None \<Rightarrow> Some (0, ret)
      | Some m \<Rightarrow>
          if version_butex m \<noteq> get_version t then Some (0, return_value m)
          else join_wait others (Suc k) (others k pool) t ret)"

definition join ::
  "(nat \<Rightarrow> 'attr meta_pool \<Rightarrow> 'attr meta_pool) \<Rightarrow> 'attr meta_pool \<Rightarrow> bthread_t option
     \<Rightarrow> bthread_t \<Rightarrow> void_ptr \<Rightarrow> (int \<times> void_ptr) option" where
  "join others pool self t ret =
     (case address_meta pool t of
        None \<Rightarrow> Some (0, ret)
      | Some m \<Rightarrow>
          if self = Some t then Some (EINVAL, ret)
          else join_wait others 0 pool t ret)"

text \<open>
  Modelled from the spec: \<^verbatim>\<open>TaskGroup::interrupt\<close> (declared in the header, defined
  elsewhere). The spec: interrupt sets the meta's interrupt flag and wakes any blocking
  primitive the ltask is parked on; it returns success even if the ltask is not blocked
  (the flag is sticky); on an invalid id it is a no-op that returns success. The control
  and the tag only route the wake-up. The result is the return code and the pool.
\<close>

definition interrupt :: "'attr meta_pool \<Rightarrow> bthread_t \<Rightarrow> int \<times> 'attr meta_pool" where
  "interrupt pool t =
     (case address_meta pool t of
        None \<Rightarrow> (0, pool)
      | Some m \<Rightarrow> (0, pool(get_slot t \<mapsto> m\<lparr>interrupted := True, parked := False\<rparr>)))"

text \<open>
  Modelled from the spec: \<^verbatim>\<open>TaskGroup::get_attr\<close> (declared in the header, defined
  elsewhere). The header: put the attribute associated with \<open>tid\<close> into \<^verbatim>\<open>*attr\<close>; returns
  0 on success, -1 otherwise and errno is set. The spec: on an invalid id get_attr is an
  error. The result is the return code, errno, and the content of \<^verbatim>\<open>*attr\<close>; \<open>errno\<close> and
  \<open>out\<close> are what the two hold before the call.
\<close>

definition get_attr ::
  "'attr meta_pool \<Rightarrow> int \<Rightarrow> bthread_t \<Rightarrow> 'attr \<Rightarrow> int \<times> int \<times> 'attr" where
  "get_attr pool errno t out =
     (case address_meta pool t of
        None \<Rightarrow> (- 1, EINVAL, out)
      | Some m \<Rightarrow> (0, errno, attr m))"

subsection \<open>TaskRunner\<close>

text \<open>
  Modelled from the spec: \<^verbatim>\<open>TaskGroup::task_runner\<close> (declared in the header, defined
  elsewhere). The spec: the runner invokes \<open>fn(arg)\<close> and catches the sentinel to extract
  the explicit return value; it stores the return value into the meta, marks the meta
  terminated and bumps the meta's generation; it then signals the version butex and
  leaves through \<open>ending_sched\<close>. The model is the descriptor that the runner leaves behind;
  the joiners it wakes look at the slot again in \<open>join_wait\<close>.
\<close>

definition task_runner :: "'attr TaskMeta \<Rightarrow> 'attr TaskMeta" where
  "task_runner m =
     (let thread_return = (case fn m (arg m) of Returns r \<Rightarrow> r | Raises e \<Rightarrow> value_of e)
      in m\<lparr>return_value := thread_return, terminated := True,
           version_butex := version_butex m + 1\<rparr>)"




subsection \<open>push_rq\<close>

text \<open>
  Modelled from the spec: \<^verbatim>\<open>TaskGroup::push_rq\<close> (declared in the header, defined
  elsewhere). The header: push a task into \<^verbatim>\<open>_rq\<close>; if \<^verbatim>\<open>_rq\<close> is full, retry after some
  time; this process may go on indefinitely. The spec: a failed \<open>push_bottom\<close> is retried
  with backoff and the id is never dropped.

  While the owner sleeps between two attempts only peers touch the queue, and they only
  steal from its top: \<open>peers k\<close> is the number of steals during the \<open>k\<close>-th sleep. A call
  that never returns has the value \<open>None\<close>.
\<close>

partial_function (option) push_rq_retry ::
  "(nat \<Rightarrow> nat) \<Rightarrow> nat \<Rightarrow> WorkStealingQueue \<Rightarrow> bthread_t \<Rightarrow> WorkStealingQueue option" where
  "push_rq_retry peers k q t =
     (case push_bottom q t of
        Some q' \<Rightarrow> Some q'
      | None \<Rightarrow> push_rq_retry peers (Suc k) (stolen_by_peers (peers k) q) t)"

definition push_rq ::
  "(nat \<Rightarrow> nat) \<Rightarrow> 'attr TaskGroup \<Rightarrow> bthread_t \<Rightarrow> 'attr TaskGroup option" where
  "push_rq peers g t = map_option (\<lambda>q. g\<lparr>rq := q\<rparr>) (push_rq_retry peers 0 (rq g) t)"

text \<open>The queue that the \<open>n\<close>-th retry finds, counted from the sleep numbered \<open>k\<close>.\<close>

fun rq_after_sleeps :: "(nat \<Rightarrow> nat) \<Rightarrow> nat \<Rightarrow> nat \<Rightarrow> WorkStealingQueue \<Rightarrow> WorkStealingQueue" where
  "rq_after_sleeps peers k 0 q = q"
| "rq_after_sleeps peers k (Suc n) q =
     rq_after_sleeps peers (Suc k) n (stolen_by_peers (peers k) q)"

subsection \<open>Concrete states\<close>

text \<open>
  A descriptor in slot 1 at generation 2 whose entry calls \<^verbatim>\<open>bthread_exit(0x42)\<close>, a pool
  that holds it, and a group that runs it with a full local queue of capacity two and two
  ids waiting in the remote queue.
\<close>

definition sample_entry :: "void_ptr \<Rightarrow> entry_outcome" where
  "sample_entry a = bthread_exit 0x42"

definition sample_meta :: "unit TaskMeta" where
  "sample_meta =
     \<lparr>tid = 0x200000001, fn = sample_entry, arg = 0, attr = (), stop = False,
      interrupted = False, parked = False, stat = \<lparr>cpu_usage_ns = 7\<rparr>,
      cpuwide_start_ns = 0, version_butex = 2, return_value = 0, terminated = False\<rparr>"

definition sample_pool :: "unit meta_pool" where
  "sample_pool = [1 \<mapsto> sample_meta]"

definition sample_group :: "unit TaskGroup" where
  "sample_group =
     \<lparr>cur_meta = sample_meta,
      cpu_time_stat = \<lparr>acts_cell = AtomicInteger128_default\<rparr>,
      last_cpu_clock_ns = 100,
      pl = \<lparr>pl_epoch = 4\<rparr>,
      last_pl_state = 0,
      steal_seed = 11,
      steal_offset = 3,
      main_tid = 0,
      rq = \<lparr>wsq_items = [21, 22], wsq_capacity = 2\<rparr>,
      remote_rq = [5, 6]\<rparr>"

text \<open>A control whose steal always finds id 9 and advances the seed by the offset.\<close>

definition sample_control_steal :: "unit control_steal_task" where
  "sample_control_steal c seed offset = (Some 9, seed + offset, c)"

section \<open>Bit-level facts about the packed word\<close>

lemma mask_is_low_63_bits: "w AND LAST_SCHEDULING_TIME_MASK = take_bit 63 w"
  for w :: int64_t
proof -
  have "LAST_SCHEDULING_TIME_MASK = mask 63"
    by (simp add: LAST_SCHEDULING_TIME_MASK_def mask_eq_exp_minus_1)
  then show ?thesis by (simp add: take_bit_eq_mask)
qed

lemma type_mask_is_bit_63: "TASK_TYPE_MASK = push_bit 63 1"
  by (simp add: TASK_TYPE_MASK_def)

lemma sign_bit: "bit w 63 \<longleftrightarrow> sint w < 0"
  for w :: int64_t
  using bit_last_iff [of w] by simp

lemma take_bit_63_nonneg: "0 \<le> sint w \<Longrightarrow> take_bit 63 w = w"
  for w :: int64_t
proof (rule bit_word_eqI)
  fix n
  assume nonneg: "0 \<le> sint w" and n: "n < LENGTH(64)"
  from nonneg have top: "\<not> bit w 63" by (simp add: sign_bit)
  show "bit (take_bit 63 w) n \<longleftrightarrow> bit w n"
  proof (cases "n < 63")
    case True
    then show ?thesis by (simp add: bit_take_bit_iff)
  next
    case False
    with n have "n = 63" by simp
    with top show ?thesis by (simp add: bit_take_bit_iff)
  qed
qed

lemma take_bit_63_packed:
  "take_bit 63 (take_bit 63 w OR push_bit 63 (of_bool m)) = take_bit 63 w"
  for w :: int64_t
  by (rule bit_word_eqI) (auto simp add: bit_take_bit_iff bit_or_iff bit_push_bit_iff)

lemma bit_63_packed: "bit (take_bit 63 w OR push_bit 63 (of_bool m)) 63 \<longleftrightarrow> m"
  for w :: int64_t
  by (simp add: bit_take_bit_iff bit_or_iff bit_push_bit_iff)

lemma and_type_mask: "w AND TASK_TYPE_MASK \<noteq> 0 \<longleftrightarrow> bit w 63"
  for w :: int64_t
  unfolding type_mask_is_bit_63 by (rule bit_iff_and_push_bit_not_eq_0 [symmetric])

lemma sint_add_no_overflow:
  "- (2 ^ 63) \<le> sint c + sint d \<Longrightarrow> sint c + sint d < 2 ^ 63
     \<Longrightarrow> sint (c + d) = sint c + sint d"
  for c d :: int64_t
  by (simp add: sint_word_ariths signed_take_bit_int_eq_self)

lemma sint_sub_no_overflow:
  "- (2 ^ 63) \<le> sint c - sint d \<Longrightarrow> sint c - sint d < 2 ^ 63
     \<Longrightarrow> sint (c - d) = sint c - sint d"
  for c d :: int64_t
  by (simp add: sint_word_ariths signed_take_bit_int_eq_self)

lemma set_last_run_ns_word:
  "last_run_ns_and_type_field (set_last_run_ns s ns m) =
     take_bit 63 ns OR push_bit 63 (of_bool m)"
  by (simp add: set_last_run_ns_def mask_is_low_63_bits)

section \<open>CPUTimeStat\<close>

text \<open>
  Claim C1. For every timestamp \<open>ns\<close> with \<open>0 \<le> ns < 2^63\<close> (a non-negative \<^verbatim>\<open>int64_t\<close>) and
  every boolean \<open>main\<close>, after \<^verbatim>\<open>set_last_run_ns(ns, main)\<close> the accessor \<^verbatim>\<open>last_run_ns()\<close>
  returns \<open>ns\<close> and \<^verbatim>\<open>is_main_task()\<close> returns \<open>main\<close>; the timestamp occupies bits 0..62 of
  the first word and the flag occupies bit 63.
\<close>

theorem set_last_run_ns_packing:
  "0 \<le> sint ns \<Longrightarrow>
     last_run_ns (set_last_run_ns s ns main) = ns
     \<and> is_main_task (set_last_run_ns s ns main) = main
     \<and> take_bit 63 (last_run_ns_and_type (set_last_run_ns s ns main)) = ns
     \<and> bit (last_run_ns_and_type (set_last_run_ns s ns main)) 63 = main"
proof -
  assume nonneg: "0 \<le> sint ns"
  let ?w = "last_run_ns_and_type_field (set_last_run_ns s ns main)"
  have low: "take_bit 63 ?w = ns"
    using nonneg by (simp add: set_last_run_ns_word take_bit_63_packed take_bit_63_nonneg)
  have top: "bit ?w 63 = main"
    by (simp add: set_last_run_ns_word bit_63_packed)
  have "last_run_ns (set_last_run_ns s ns main) = ns"
    using low by (simp add: last_run_ns_def mask_is_low_63_bits)
  moreover have "is_main_task (set_last_run_ns s ns main) = main"
    using top by (simp add: is_main_task_def and_type_mask)
  moreover have "take_bit 63 (last_run_ns_and_type (set_last_run_ns s ns main)) = ns"
    using low by (simp add: last_run_ns_and_type_def)
  moreover have "bit (last_run_ns_and_type (set_last_run_ns s ns main)) 63 = main"
    using top by (simp add: last_run_ns_and_type_def)
  ultimately show ?thesis by simp
qed

theorem set_last_run_ns_packing_witness:
  "0 \<le> sint (1000 :: int64_t)
   \<and> last_run_ns (set_last_run_ns CPUTimeStat_default 1000 True) = 1000
   \<and> is_main_task (set_last_run_ns CPUTimeStat_default 1000 True) = True
   \<and> last_run_ns_and_type (set_last_run_ns CPUTimeStat_default 1000 True)
       = 0x80000000000003E8"
proof -
  have h: "0 \<le> sint (1000 :: int64_t)" by simp
  have w: "last_run_ns_and_type (set_last_run_ns CPUTimeStat_default 1000 True)
             = 0x80000000000003E8"
    by (simp add: last_run_ns_and_type_def set_last_run_ns_def CPUTimeStat_default_def
        LAST_SCHEDULING_TIME_MASK_def)
  show ?thesis
    using h w set_last_run_ns_packing [OF h, of CPUTimeStat_default True] by simp
qed

text \<open>
  Claim C2, as amended. For every CPUTimeStat \<open>s\<close> and every \<open>delta \<ge> 0\<close>:
  \<^verbatim>\<open>add_cumulated_cputime_ns(delta, true)\<close> leaves \<^verbatim>\<open>cumulated_cputime_ns()\<close> unchanged;
  \<^verbatim>\<open>add_cumulated_cputime_ns(delta, false)\<close> makes it the old value plus \<open>delta\<close> in
  \<^verbatim>\<open>int64_t\<close> arithmetic; and when the old value plus \<open>delta\<close> does not exceed \<open>2^63 - 1\<close>, the
  new value is exactly that integer sum and is not below the old value.
\<close>

theorem add_cumulated_cputime_ns_accumulates:
  "0 \<le> sint delta \<Longrightarrow>
     cumulated_cputime_ns (add_cumulated_cputime_ns s delta True) = cumulated_cputime_ns s
     \<and> sint (cumulated_cputime_ns s)
         \<le> sint (cumulated_cputime_ns (add_cumulated_cputime_ns s delta True))
     \<and> cumulated_cputime_ns (add_cumulated_cputime_ns s delta False)
         = cumulated_cputime_ns s + delta
     \<and> (sint (cumulated_cputime_ns s) + sint delta < 2 ^ 63 \<longrightarrow>
          sint (cumulated_cputime_ns (add_cumulated_cputime_ns s delta False))
            = sint (cumulated_cputime_ns s) + sint delta
          \<and> sint (cumulated_cputime_ns s)
              \<le> sint (cumulated_cputime_ns (add_cumulated_cputime_ns s delta False)))"
proof -
  assume nonneg: "0 \<le> sint delta"
  let ?old = "cumulated_cputime_ns_field s"
  have lower: "- (2 ^ 63) \<le> sint ?old + sint delta"
    using nonneg sint_ge [of ?old] by simp
  have "sint (?old + delta) = sint ?old + sint delta"
    if "sint ?old + sint delta < 2 ^ 63"
    using lower that by (rule sint_add_no_overflow)
  with nonneg show ?thesis
    by (simp add: cumulated_cputime_ns_def add_cumulated_cputime_ns_def)
qed

theorem add_cumulated_cputime_ns_accumulates_witness:
  "0 \<le> sint (3 :: int64_t)
   \<and> sint (cumulated_cputime_ns_field CPUTimeStat_default) + sint (3 :: int64_t) < 2 ^ 63
   \<and> cumulated_cputime_ns (add_cumulated_cputime_ns CPUTimeStat_default 3 True) = 0
   \<and> cumulated_cputime_ns (add_cumulated_cputime_ns CPUTimeStat_default 3 False) = 3
   \<and> sint (cumulated_cputime_ns (add_cumulated_cputime_ns CPUTimeStat_default 3 False)) = 3"
proof -
  have h: "0 \<le> sint (3 :: int64_t)" by simp
  show ?thesis
    using h add_cumulated_cputime_ns_accumulates [OF h, of CPUTimeStat_default]
    by (simp add: CPUTimeStat_default_def cumulated_cputime_ns_def)
qed

text \<open>
  The claim as stated fails where the sum leaves the range of \<^verbatim>\<open>int64_t\<close>: with the
  accumulator at \<open>2^63 - 1\<close> and \<open>delta = 1\<close> the stored value wraps to \<open>- 2^63\<close>, below the
  old value.
\<close>

theorem add_cumulated_cputime_ns_counterexample:
  "0 \<le> sint (1 :: int64_t)
   \<and> sint (cumulated_cputime_ns
        (add_cumulated_cputime_ns
          (CPUTimeStat_of_Value \<lparr>v1 = 0, v2 = 0x7FFFFFFFFFFFFFFF\<rparr>) 1 False))
      < sint (cumulated_cputime_ns
          (CPUTimeStat_of_Value \<lparr>v1 = 0, v2 = 0x7FFFFFFFFFFFFFFF\<rparr>))"
  by (simp add: cumulated_cputime_ns_def add_cumulated_cputime_ns_def CPUTimeStat_of_Value_def)

text \<open>
  Claim C10. For every CPUTimeStat \<open>s\<close> and all arguments, \<^verbatim>\<open>set_last_run_ns(ns, main)\<close>
  leaves \<^verbatim>\<open>cumulated_cputime_ns()\<close> unchanged, and
  \<^verbatim>\<open>add_cumulated_cputime_ns(delta, main)\<close> leaves \<^verbatim>\<open>last_run_ns()\<close> and \<^verbatim>\<open>is_main_task()\<close>
  unchanged.
\<close>

theorem CPUTimeStat_field_independence:
  "cumulated_cputime_ns (set_last_run_ns s ns main) = cumulated_cputime_ns s
   \<and> last_run_ns (add_cumulated_cputime_ns s delta main') = last_run_ns s
   \<and> is_main_task (add_cumulated_cputime_ns s delta main') = is_main_task s
   \<and> last_run_ns_and_type (add_cumulated_cputime_ns s delta main') = last_run_ns_and_type s"
  by (simp add: cumulated_cputime_ns_def set_last_run_ns_def last_run_ns_def
      is_main_task_def last_run_ns_and_type_def add_cumulated_cputime_ns_def)

text \<open>
  Claim C9. For every CPUTimeStat \<open>s\<close>, converting \<open>s\<close> to an \<^verbatim>\<open>AtomicInteger128::Value\<close> and
  constructing a CPUTimeStat back from that value yields a stat with identical
  \<^verbatim>\<open>last_run_ns_and_type()\<close> and \<^verbatim>\<open>cumulated_cputime_ns()\<close>; hence an
  \<^verbatim>\<open>AtomicCPUTimeStat::store\<close> followed by \<^verbatim>\<open>load\<close> recovers the stored stat.
\<close>

theorem CPUTimeStat_Value_round_trip:
  "last_run_ns_and_type (CPUTimeStat_of_Value (Value_of_CPUTimeStat s))
     = last_run_ns_and_type s
   \<and> cumulated_cputime_ns (CPUTimeStat_of_Value (Value_of_CPUTimeStat s))
       = cumulated_cputime_ns s
   \<and> CPUTimeStat_of_Value (Value_of_CPUTimeStat s) = s
   \<and> acts_load (acts_store a s) = s
   \<and> acts_load_unsafe (acts_store a s) = s"
  by (simp add: last_run_ns_and_type_def cumulated_cputime_ns_def CPUTimeStat_of_Value_def
      Value_of_CPUTimeStat_def acts_load_def acts_load_unsafe_def acts_store_def
      ai_load_def ai_load_unsafe_def ai_store_def)

section \<open>ExitException and the exit value\<close>



lemma task_runner_return:
  "fn m (arg m) = Returns r \<Longrightarrow> return_value (task_runner m) = r"
  by (simp add: task_runner_def)







section \<open>TaskGroup\<close>

text \<open>
  Claim C8. For every TaskGroup, \<^verbatim>\<open>current_task_cpu_clock_ns()\<close> returns 0 when
  \<^verbatim>\<open>_last_cpu_clock_ns\<close> is 0; otherwise it returns the current task's accumulated
  \<^verbatim>\<open>cpu_usage_ns\<close> plus the thread CPU time elapsed since \<^verbatim>\<open>_last_cpu_clock_ns\<close>, in
  \<^verbatim>\<open>int64_t\<close> arithmetic, which is the integer sum whenever the difference and the sum stay
  in range.
\<close>

theorem current_task_cpu_clock_ns_sentinel:
  "(last_cpu_clock_ns g = 0 \<longrightarrow> current_task_cpu_clock_ns g now = 0)
   \<and> (last_cpu_clock_ns g \<noteq> 0 \<longrightarrow>
        current_task_cpu_clock_ns g now
          = cpu_usage_ns (stat (cur_meta g)) + (now - last_cpu_clock_ns g))
   \<and> (last_cpu_clock_ns g \<noteq> 0
        \<and> - (2 ^ 63) \<le> sint now - sint (last_cpu_clock_ns g)
        \<and> sint now - sint (last_cpu_clock_ns g) < 2 ^ 63
        \<and> - (2 ^ 63) \<le> sint (cpu_usage_ns (stat (cur_meta g)))
              + (sint now - sint (last_cpu_clock_ns g))
        \<and> sint (cpu_usage_ns (stat (cur_meta g)))
              + (sint now - sint (last_cpu_clock_ns g)) < 2 ^ 63 \<longrightarrow>
        sint (current_task_cpu_clock_ns g now)
          = sint (cpu_usage_ns (stat (cur_meta g)))
              + (sint now - sint (last_cpu_clock_ns g)))"
proof -
  let ?last = "last_cpu_clock_ns g" and ?usage = "cpu_usage_ns (stat (cur_meta g))"
  have zero: "current_task_cpu_clock_ns g now = 0" if "?last = 0"
    using that by (simp add: current_task_cpu_clock_ns_def)
  have sum: "current_task_cpu_clock_ns g now = ?usage + (now - ?last)" if "?last \<noteq> 0"
    using that by (simp add: current_task_cpu_clock_ns_def)
  have signed: "sint (current_task_cpu_clock_ns g now) = sint ?usage + (sint now - sint ?last)"
    if nz: "?last \<noteq> 0"
      and d1: "- (2 ^ 63) \<le> sint now - sint ?last" and d2: "sint now - sint ?last < 2 ^ 63"
      and s1: "- (2 ^ 63) \<le> sint ?usage + (sint now - sint ?last)"
      and s2: "sint ?usage + (sint now - sint ?last) < 2 ^ 63"
  proof -
    have elapsed: "sint (now - ?last) = sint now - sint ?last"
      using d1 d2 by (rule sint_sub_no_overflow)
    have "sint (?usage + (now - ?last)) = sint ?usage + sint (now - ?last)"
      using s1 s2 unfolding elapsed [symmetric] by (rule sint_add_no_overflow)
    with elapsed sum [OF nz] show ?thesis by simp
  qed
  from zero sum signed show ?thesis by blast
qed

theorem current_task_cpu_clock_ns_sentinel_witness:
  "last_cpu_clock_ns (sample_group\<lparr>last_cpu_clock_ns := 0\<rparr>) = 0
   \<and> current_task_cpu_clock_ns (sample_group\<lparr>last_cpu_clock_ns := 0\<rparr>) 150 = 0
   \<and> last_cpu_clock_ns sample_group \<noteq> 0
   \<and> current_task_cpu_clock_ns sample_group 150 = 57
   \<and> sint (current_task_cpu_clock_ns sample_group 150) = 57"
proof -
  have off: "last_cpu_clock_ns (sample_group\<lparr>last_cpu_clock_ns := 0\<rparr>) = 0"
    by simp
  have on: "last_cpu_clock_ns sample_group = 100"
    and usage: "cpu_usage_ns (stat (cur_meta sample_group)) = 7"
    by (simp_all add: sample_group_def sample_meta_def)
  show ?thesis
    using off on usage
      current_task_cpu_clock_ns_sentinel [of "sample_group\<lparr>last_cpu_clock_ns := 0\<rparr>" 150]
      current_task_cpu_clock_ns_sentinel [of sample_group 150]
    by simp
qed

text \<open>
  Claim C4. Every call to \<^verbatim>\<open>TaskGroup::steal_task\<close> first attempts to pop the group's own
  remote run queue and returns that id when the pop succeeds, leaving the parking state,
  the seed and the control untouched. Only when the remote queue yields nothing does it
  capture the ParkingLot state (in the default build, where
  \<^verbatim>\<open>BTHREAD_DONT_SAVE_PARKING_STATE\<close> is undefined) and return what TaskControl's
  \<^verbatim>\<open>steal_task\<close> returns for \<^verbatim>\<open>_steal_seed\<close> and \<^verbatim>\<open>_steal_offset\<close>.
\<close>

theorem steal_task_order:
  "(remote_rq g = t # q' \<longrightarrow>
      steal_task dont_save control_steal g c = (Some t, g\<lparr>remote_rq := q'\<rparr>, c))
   \<and> (remote_rq g = [] \<and> control_steal c (steal_seed g) (steal_offset g) = (r, seed', c') \<longrightarrow>
        steal_task False control_steal g c
          = (r, g\<lparr>last_pl_state := get_state (pl g), steal_seed := seed'\<rparr>, c')
        \<and> steal_task True control_steal g c = (r, g\<lparr>steal_seed := seed'\<rparr>, c'))"
  by (simp add: steal_task_def)

theorem steal_task_order_witness:
  "remote_rq sample_group = 5 # [6]
   \<and> steal_task False sample_control_steal sample_group ()
       = (Some 5, sample_group\<lparr>remote_rq := [6]\<rparr>, ())
   \<and> remote_rq (sample_group\<lparr>remote_rq := []\<rparr>) = []
   \<and> sample_control_steal () (steal_seed sample_group) (steal_offset sample_group)
       = (Some 9, 14, ())
   \<and> steal_task False sample_control_steal (sample_group\<lparr>remote_rq := []\<rparr>) ()
       = (Some 9, sample_group\<lparr>remote_rq := [], last_pl_state := 4, steal_seed := 14\<rparr>, ())"
proof -
  have first: "remote_rq sample_group = 5 # [6]"
    by (simp add: sample_group_def)
  have ctl: "sample_control_steal () (steal_seed sample_group) (steal_offset sample_group)
               = (Some 9, 14, ())"
    by (simp add: sample_control_steal_def sample_group_def)
  have park: "get_state (pl sample_group) = 4"
    by (simp add: get_state_def sample_group_def)
  show ?thesis
    using first ctl park
      steal_task_order [of sample_group 5 "[6]" False sample_control_steal "()"]
      steal_task_order [of "sample_group\<lparr>remote_rq := []\<rparr>" _ _ _ sample_control_steal "()"
        "Some 9" 14 "()"]
    by simp
qed

section \<open>Stale identifiers\<close>

lemma address_meta_stale:
  "pool (get_slot t) = Some m \<Longrightarrow> version_butex m \<noteq> get_version t
     \<Longrightarrow> address_meta pool t = None"
  by (simp add: address_meta_def)

text \<open>
  Claim C5. For every id whose generation has advanced (the slot's generation differs from
  the one in the id), \<^verbatim>\<open>join(tid, ret)\<close> returns 0, \<^verbatim>\<open>interrupt(tid, c, tag)\<close> returns
  success and changes nothing, and \<^verbatim>\<open>get_attr(tid, attr)\<close> returns -1 with errno set.
\<close>

theorem stale_id_behaviour:
  "pool (get_slot t) = Some m \<Longrightarrow> version_butex m \<noteq> get_version t \<Longrightarrow>
     join others pool self t ret = Some (0, ret)
     \<and> interrupt pool t = (0, pool)
     \<and> get_attr pool errno t out = (- 1, EINVAL, out)
     \<and> EINVAL \<noteq> 0"
proof -
  assume "pool (get_slot t) = Some m" and "version_butex m \<noteq> get_version t"
  then have "address_meta pool t = None"
    by (rule address_meta_stale)
  then show ?thesis
    by (simp add: join_def interrupt_def get_attr_def EINVAL_def)
qed

theorem stale_id_behaviour_witness:
  "sample_pool (get_slot 0x100000001) = Some sample_meta
   \<and> version_butex sample_meta \<noteq> get_version 0x100000001
   \<and> join (\<lambda>k p. p) sample_pool None 0x100000001 0 = Some (0, 0)
   \<and> interrupt sample_pool 0x100000001 = (0, sample_pool)
   \<and> get_attr sample_pool 0 0x100000001 () = (- 1, 22, ())"
proof -
  have slot: "sample_pool (get_slot 0x100000001) = Some sample_meta"
    by (simp add: sample_pool_def get_slot_def)
  have stale: "version_butex sample_meta \<noteq> get_version 0x100000001"
    by (simp add: sample_meta_def get_version_def drop_bit_eq_div)
  show ?thesis
    using slot stale
      stale_id_behaviour [of sample_pool "0x100000001" sample_meta "\<lambda>k p. p" None 0 0 "()",
        OF slot stale]
    by (simp add: EINVAL_def)
qed

text \<open>
  On a live id the model takes the other branches: joining self is refused, and a join on
  an ltask that exits during the first suspension returns the value stored in its
  descriptor.
\<close>

lemma join_self_is_error:
  "address_meta pool t = Some m \<Longrightarrow> join others pool (Some t) t ret = Some (EINVAL, ret)"
  by (simp add: join_def)

lemma join_returns_stored_value:
  assumes live: "address_meta pool t = Some m"
    and other: "self \<noteq> Some t"
    and exited: "others 0 pool (get_slot t) = Some m'" "version_butex m' \<noteq> get_version t"
  shows "join others pool self t ret = Some (0, return_value m')"
proof -
  from live have now: "pool (get_slot t) = Some m" "version_butex m = get_version t"
    by (auto simp add: address_meta_def split: option.splits if_splits)
  have "join_wait others (Suc 0) (others 0 pool) t ret = Some (0, return_value m')"
    using exited by (subst join_wait.simps) simp
  with now have "join_wait others 0 pool t ret = Some (0, return_value m')"
    by (subst join_wait.simps) simp
  with live other show ?thesis
    by (simp add: join_def)
qed

section \<open>push_rq\<close>

lemma stolen_by_peers_items:
  "wsq_items (stolen_by_peers n q) = drop n (wsq_items q)"
proof (induction n arbitrary: q)
  case 0
  show ?case by simp
next
  case (Suc n)
  show ?case
  proof (cases "wsq_items q")
    case Nil
    then show ?thesis by (simp add: steal_top_def)
  next
    case (Cons x xs)
    then show ?thesis by (simp add: steal_top_def Suc.IH)
  qed
qed

lemma stolen_by_peers_capacity:
  "wsq_capacity (stolen_by_peers n q) = wsq_capacity q"
proof (induction n arbitrary: q)
  case 0
  show ?case by simp
next
  case (Suc n)
  show ?case
  proof (cases "wsq_items q")
    case Nil
    then show ?thesis by (simp add: steal_top_def)
  next
    case (Cons x xs)
    then show ?thesis by (simp add: steal_top_def Suc.IH)
  qed
qed

text \<open>A call that returns has put the id at the bottom of what the peers left.\<close>

lemma push_rq_retry_enqueues:
  assumes returns: "push_rq_retry peers k q t = Some q'"
  shows "(\<exists>n. wsq_items q' = drop n (wsq_items q) @ [t])
         \<and> wsq_capacity q' = wsq_capacity q
         \<and> length (wsq_items q') \<le> wsq_capacity q"
proof (rule push_rq_retry.raw_induct
    [where P = "\<lambda>peers k q t q'. (\<exists>n. wsq_items q' = drop n (wsq_items q) @ [t])
       \<and> wsq_capacity q' = wsq_capacity q \<and> length (wsq_items q') \<le> wsq_capacity q",
     OF _ returns], goal_cases)
  case (1 retry peers k q t q')
  note IH = 1(1) and body = 1(2)
  show ?case
  proof (cases "wsq_full q")
    case False
    with body have "q' = q\<lparr>wsq_items := wsq_items q @ [t]\<rparr>"
      by (simp add: push_bottom_def)
    moreover have "wsq_items q = drop 0 (wsq_items q)" by simp
    ultimately show ?thesis
      using False by (auto simp add: wsq_full_def intro: exI [of _ 0])
  next
    case True
    with body have "retry peers (Suc k) (stolen_by_peers (peers k) q) t = Some q'"
      by (simp add: push_bottom_def)
    from IH [OF this] obtain n where
      n: "wsq_items q' = drop n (wsq_items (stolen_by_peers (peers k) q)) @ [t]"
      and c: "wsq_capacity q' = wsq_capacity (stolen_by_peers (peers k) q)"
      and l: "length (wsq_items q') \<le> wsq_capacity (stolen_by_peers (peers k) q)"
      by blast
    from n have "wsq_items q' = drop (n + peers k) (wsq_items q) @ [t]"
      by (simp add: stolen_by_peers_items)
    with c l show ?thesis
      by (auto simp add: stolen_by_peers_capacity)
  qed
qed

text \<open>A call that returns has found room at some retry.\<close>

lemma push_rq_retry_Some_room:
  assumes returns: "push_rq_retry peers k q t = Some q'"
  shows "\<exists>n. \<not> wsq_full (rq_after_sleeps peers k n q)"
proof (rule push_rq_retry.raw_induct
    [where P = "\<lambda>peers k q t q'. \<exists>n. \<not> wsq_full (rq_after_sleeps peers k n q)",
     OF _ returns], goal_cases)
  case (1 retry peers k q t q')
  note IH = 1(1) and body = 1(2)
  show ?case
  proof (cases "wsq_full q")
    case False
    then have "\<not> wsq_full (rq_after_sleeps peers k 0 q)" by simp
    then show ?thesis by blast
  next
    case True
    with body have "retry peers (Suc k) (stolen_by_peers (peers k) q) t = Some q'"
      by (simp add: push_bottom_def)
    from IH [OF this] obtain n where
      "\<not> wsq_full (rq_after_sleeps peers (Suc k) n (stolen_by_peers (peers k) q))"
      by blast
    then have "\<not> wsq_full (rq_after_sleeps peers k (Suc n) q)" by simp
    then show ?thesis by blast
  qed
qed

text \<open>Room at some retry makes the call return.\<close>

lemma push_rq_retry_room_Some:
  "\<not> wsq_full (rq_after_sleeps peers k n q) \<Longrightarrow> \<exists>q'. push_rq_retry peers k q t = Some q'"
proof (induction n arbitrary: k q)
  case 0
  then show ?case
    by (subst push_rq_retry.simps) (simp add: push_bottom_def)
next
  case (Suc n)
  show ?case
  proof (cases "wsq_full q")
    case False
    then show ?thesis
      by (subst push_rq_retry.simps) (simp add: push_bottom_def)
  next
    case True
    from Suc.prems
    have "\<not> wsq_full (rq_after_sleeps peers (Suc k) n (stolen_by_peers (peers k) q))"
      by simp
    from Suc.IH [OF this] obtain q' where
      "push_rq_retry peers (Suc k) (stolen_by_peers (peers k) q) t = Some q'" ..
    with True show ?thesis
      by (subst push_rq_retry.simps) (simp add: push_bottom_def)
  qed
qed

lemma push_rq_retry_None_iff:
  "push_rq_retry peers k q t = None \<longleftrightarrow> (\<forall>n. wsq_full (rq_after_sleeps peers k n q))"
proof
  assume never: "push_rq_retry peers k q t = None"
  show "\<forall>n. wsq_full (rq_after_sleeps peers k n q)"
  proof (rule ccontr)
    assume "\<not> (\<forall>n. wsq_full (rq_after_sleeps peers k n q))"
    then obtain n where "\<not> wsq_full (rq_after_sleeps peers k n q)" by blast
    from push_rq_retry_room_Some [OF this, of t] never show False by simp
  qed
next
  assume full: "\<forall>n. wsq_full (rq_after_sleeps peers k n q)"
  show "push_rq_retry peers k q t = None"
  proof (cases "push_rq_retry peers k q t")
    case None
    then show ?thesis .
  next
    case (Some q')
    from push_rq_retry_Some_room [OF this] full show ?thesis by blast
  qed
qed

lemma rq_after_sleeps_no_steals: "rq_after_sleeps (\<lambda>_. 0) k n q = q"
  by (induction n arbitrary: k) simp_all

text \<open>
  Claim C7. \<^verbatim>\<open>TaskGroup::push_rq\<close> never drops a task: a call returns only after the id has
  been enqueued at the bottom of the local run queue, behind the ids that the peers have
  not stolen and within the capacity; the call returns as soon as a retry finds room, and
  it does not terminate while the queue stays full.
\<close>

theorem push_rq_never_drops:
  "(push_rq peers g t = Some g' \<longrightarrow>
      (\<exists>n. wsq_items (rq g') = drop n (wsq_items (rq g)) @ [t])
      \<and> last (wsq_items (rq g')) = t
      \<and> length (wsq_items (rq g')) \<le> wsq_capacity (rq g)
      \<and> g' = g\<lparr>rq := rq g'\<rparr>)
   \<and> (push_rq peers g t = None \<longleftrightarrow> (\<forall>n. wsq_full (rq_after_sleeps peers 0 n (rq g))))"
proof -
  have never: "push_rq peers g t = None \<longleftrightarrow> (\<forall>n. wsq_full (rq_after_sleeps peers 0 n (rq g)))"
    by (simp add: push_rq_def push_rq_retry_None_iff)
  have returned: "(\<exists>n. wsq_items (rq g') = drop n (wsq_items (rq g)) @ [t])
      \<and> last (wsq_items (rq g')) = t
      \<and> length (wsq_items (rq g')) \<le> wsq_capacity (rq g)
      \<and> g' = g\<lparr>rq := rq g'\<rparr>"
    if "push_rq peers g t = Some g'"
  proof -
    from that obtain q' where q': "push_rq_retry peers 0 (rq g) t = Some q'"
      and g': "g' = g\<lparr>rq := q'\<rparr>"
      by (auto simp add: push_rq_def)
    from push_rq_retry_enqueues [OF q'] obtain n where
      items: "wsq_items q' = drop n (wsq_items (rq g)) @ [t]"
      and len: "length (wsq_items q') \<le> wsq_capacity (rq g)"
      by blast
    from items have "last (wsq_items q') = t" by simp
    with items len g' show ?thesis by auto
  qed
  from never returned show ?thesis by blast
qed

theorem push_rq_never_drops_witness:
  "push_rq (\<lambda>k. if k = 1 then 1 else 0) sample_group 99
     = Some (sample_group\<lparr>rq := \<lparr>wsq_items = [22, 99], wsq_capacity = 2\<rparr>\<rparr>)
   \<and> last (wsq_items (rq (sample_group\<lparr>rq := \<lparr>wsq_items = [22, 99], wsq_capacity = 2\<rparr>\<rparr>)))
       = 99
   \<and> (\<forall>n. wsq_full (rq_after_sleeps (\<lambda>_. 0) 0 n (rq sample_group)))
   \<and> push_rq (\<lambda>_. 0) sample_group 99 = None"
proof -
  let ?peers = "\<lambda>k::nat. if k = 1 then 1 else 0 :: nat"
  have q: "rq sample_group = \<lparr>wsq_items = [21, 22], wsq_capacity = 2\<rparr>"
    by (simp add: sample_group_def)
  have "push_rq_retry ?peers 0 \<lparr>wsq_items = [21, 22], wsq_capacity = 2\<rparr> 99
          = Some \<lparr>wsq_items = [22, 99], wsq_capacity = 2\<rparr>"
    by (simp add: push_rq_retry.simps push_bottom_def wsq_full_def steal_top_def)
  then have returns: "push_rq ?peers sample_group 99
      = Some (sample_group\<lparr>rq := \<lparr>wsq_items = [22, 99], wsq_capacity = 2\<rparr>\<rparr>)"
    by (simp add: push_rq_def q)
  have full: "\<forall>n. wsq_full (rq_after_sleeps (\<lambda>_. 0) 0 n (rq sample_group))"
    by (simp add: rq_after_sleeps_no_steals q wsq_full_def)
  show ?thesis
    using returns full
      push_rq_never_drops [of ?peers sample_group 99
        "sample_group\<lparr>rq := \<lparr>wsq_items = [22, 99], wsq_capacity = 2\<rparr>\<rparr>"]
      push_rq_never_drops [of "\<lambda>_. 0" sample_group 99]
    by simp
qed


end
